theory Spec2Isabelle
  imports Main
begin

section \<open>The helm reference generator: data model\<close>

text \<open>
  The embedding follows \<^verbatim>\<open>hack/helm-reference-gen/main.go\<close>. That file holds
  \<^verbatim>\<open>GenerateDocs\<close>, \<^verbatim>\<open>allScalars\<close>, \<^verbatim>\<open>buildDocNode\<close> and \<^verbatim>\<open>generateTOC\<close>.
  The declarations it uses from the rest of the package (\<^verbatim>\<open>Parse\<close>,
  \<^verbatim>\<open>parseNodeContent\<close>, \<^verbatim>\<open>toInlineYaml\<close>, \<^verbatim>\<open>DocNode.HTMLAnchor\<close>, the regular
  expression \<^verbatim>\<open>recurseAnnotation\<close>, \<^verbatim>\<open>FormatAsTables\<close>, \<^verbatim>\<open>FormatAsList\<close>) and from
  the libraries (\<^verbatim>\<open>strings.ToLower\<close>) are parameters of the functions that call them.
\<close>

subsection \<open>yaml.Node\<close>

text \<open>
  \<^verbatim>\<open>yaml.Kind\<close> with the five constants of gopkg.in/yaml.v3. The switch of
  \<^verbatim>\<open>buildDocNode\<close> names three of them; the other two reach its last line.
\<close>

datatype Kind = DocumentNode | SequenceNode | MappingNode | ScalarNode | AliasNode

text \<open>
  The fields of \<^verbatim>\<open>yaml.Node\<close> that the program reads. \<^verbatim>\<open>Content\<close> is a slice
  of pointers to nodes; the parser never stores a nil pointer there, and the model
  holds the nodes themselves. The column of a yaml node is the selector \<open>NodeColumn\<close>,
  since \<open>Column\<close> is the field of \<open>DocNode\<close>.
\<close>

datatype yaml_node =
  Node (Kind: Kind) (Tag: string) (Value: string) (HeadComment: string)
       (NodeColumn: int) (Content: "yaml_node list")

subsection \<open>DocNode\<close>

text \<open>
  The eight fields that the composite literals of \<^verbatim>\<open>buildDocNode\<close> set or leave at
  their zero value. A field that a literal omits is the empty string, \<open>False\<close> or the
  nil slice \<open>[]\<close>.
\<close>

datatype DocNode =
  DocNode (Column: int) (ParentBreadcrumb: string) (ParentWasMap: bool) (Key: string)
          (Comment: string) (KindTag: string) (Default: string) (Children: "DocNode list")

subsection \<open>Errors\<close>

text \<open>
  \<open>ParseError\<close> is the struct of that name with its three fields. \<open>Errorf\<close> is an
  error made by \<^verbatim>\<open>fmt.Errorf\<close> with the rendered text. \<open>UnknownTemplateName t\<close> is
  the error of \<^verbatim>\<open>fmt.Errorf("unknown template name: %q", t)\<close>, kept with the name
  it quotes. \<open>Panic\<close> is a run-time panic of the Go program: an index out of range.
\<close>

datatype error =
  ParseError (ParentAnchor: string) (CurrAnchor: string) (Err: string)
  | Errorf string
  | UnknownTemplateName string
  | Panic string

section \<open>Formatting integers\<close>

text \<open>The verb \<^verbatim>\<open>%d\<close> of \<^verbatim>\<open>fmt.Sprintf\<close>: decimal digits, a minus sign when negative.\<close>

function showNat :: "nat \<Rightarrow> string" where
  "showNat n =
     (if n < 10 then [''0123456789'' ! n]
      else showNat (n div 10) @ [''0123456789'' ! (n mod 10)])"
  by pat_completeness auto
termination
  by (relation "measure (\<lambda>n. n)") auto

declare showNat.simps [simp del]

definition showInt :: "int \<Rightarrow> string" where
  "showInt i = (if i < 0 then CHR ''-'' # showNat (nat (- i)) else showNat (nat i))"

section \<open>Go's int\<close>

text \<open>
  A Go \<^verbatim>\<open>int\<close> has 64 bits on the platforms the tool is built for, and its addition
  wraps around. \<open>int64 i\<close> is the value a Go \<^verbatim>\<open>int\<close> holds after a computation whose
  mathematical result is \<open>i\<close>: the representative of \<open>i\<close> modulo \<open>2 ^ 64\<close> between
  \<open>- 2 ^ 63\<close> and \<open>2 ^ 63 - 1\<close>.
\<close>

definition int64 :: "int \<Rightarrow> int" where
  "int64 i = (i + 2 ^ 63) mod 2 ^ 64 - 2 ^ 63"

section \<open>The functions of main.go\<close>

subsection \<open>The rest of the package, as parameters\<close>

text \<open>
  \<^item> \<open>FindStringSubmatch\<close> is \<^verbatim>\<open>recurseAnnotation.FindStringSubmatch\<close>: the list is
    empty when the expression does not match, and otherwise holds the whole match
    followed by the text of each group.
  \<^item> \<open>toInlineYaml\<close> returns \<open>Inl\<close> of the error text or \<open>Inr\<close> of the rendered string.
  \<^item> \<open>HTMLAnchor\<close> is the method of \<open>DocNode\<close>.
  \<^item> \<open>parseNodeContent\<close> takes the content slice, the parent breadcrumb and the flag
    \<^verbatim>\<open>parentWasMap\<close>.
\<close>

record package =
  FindStringSubmatch :: "string \<Rightarrow> string list"
  toInlineYaml :: "yaml_node list \<Rightarrow> string + string"
  HTMLAnchor :: "DocNode \<Rightarrow> string"
  parseNodeContent :: "yaml_node list \<Rightarrow> string \<Rightarrow> bool \<Rightarrow> error + DocNode list"

subsection \<open>GenerateDocs\<close>

text \<open>
  \<^verbatim>\<open>Parse\<close>, \<^verbatim>\<open>FormatAsTables\<close> and \<^verbatim>\<open>FormatAsList\<close> are parameters, each with its
  pair of a result and an error as a sum. The type \<open>'node\<close> is that of the value which
  \<^verbatim>\<open>Parse\<close> returns and the formatters take.
\<close>

definition GenerateDocs ::
  "(string \<Rightarrow> error + 'node) \<Rightarrow> ('node \<Rightarrow> error + string) \<Rightarrow> ('node \<Rightarrow> error + string)
     \<Rightarrow> string \<Rightarrow> string \<Rightarrow> error + string" where
  "GenerateDocs Parse FormatAsTables FormatAsList yamlStr templateName =
     (case Parse yamlStr of
        Inl err \<Rightarrow> Inl err
      | Inr node \<Rightarrow>
          if templateName = ''table'' then FormatAsTables node
          else if templateName = ''list'' then FormatAsList node
          else Inl (UnknownTemplateName templateName))"

subsection \<open>allScalars\<close>

fun allScalars :: "yaml_node list \<Rightarrow> bool" where
  "allScalars [] = True"
| "allScalars (n # content) =
     (if Kind n \<noteq> ScalarNode \<or> length (Content n) > 0 then False else allScalars content)"

subsection \<open>buildDocNode\<close>

text \<open>
  The index \<^verbatim>\<open>nodeContentIdx\<close> is a Go \<^verbatim>\<open>int\<close>, and the sum
  \<^verbatim>\<open>nodeContentIdx+1\<close> is \<open>int64 (nodeContentIdx + 1)\<close>: at the largest \<^verbatim>\<open>int\<close> it
  wraps to the smallest. Reading \<^verbatim>\<open>match[1]\<close> or \<^verbatim>\<open>nodeContent[nodeContentIdx+1]\<close>
  outside the slice panics, also at a negative index.
\<close>

definition buildDocNode ::
  "package \<Rightarrow> int \<Rightarrow> yaml_node \<Rightarrow> yaml_node list \<Rightarrow> string \<Rightarrow> bool \<Rightarrow> error + DocNode" where
  "buildDocNode pkg nodeContentIdx currNode nodeContent parentBreadcrumb parentWasMap =
     (let match = FindStringSubmatch pkg (HeadComment currNode) in
      if length match > 0 \<and> \<not> 1 < length match then
        Inl (Panic ''index out of range'')
      else if length match > 0 \<and> match ! 1 = ''false'' then
        Inr (DocNode (NodeColumn currNode) parentBreadcrumb False (Value currNode)
               (HeadComment currNode) [] [] [])
      else if int (length nodeContent) < int64 (nodeContentIdx + 1) then
        Inl (ParseError parentBreadcrumb (Value currNode)
               (''content length incorrect, expected '' @ showInt (int64 (nodeContentIdx + 1))
                  @ '' got '' @ showInt (int (length nodeContent))))
      else if int64 (nodeContentIdx + 1) < 0
              \<or> int (length nodeContent) \<le> int64 (nodeContentIdx + 1) then
        Inl (Panic ''index out of range'')
      else
        let next = nodeContent ! nat (int64 (nodeContentIdx + 1)) in
        case Kind next of
          ScalarNode \<Rightarrow>
            Inr (DocNode (NodeColumn currNode) parentBreadcrumb parentWasMap (Value currNode)
                   (HeadComment currNode) (Tag next) (Value next) [])
        | MappingNode \<Rightarrow>
            (let docNode = DocNode (NodeColumn currNode) parentBreadcrumb parentWasMap
                             (Value currNode) (HeadComment currNode) (Tag next) [] []
             in case parseNodeContent pkg (Content next) (HTMLAnchor pkg docNode) False of
                  Inl err \<Rightarrow> Inl err
                | Inr children \<Rightarrow>
                    Inr (DocNode (Column docNode) (ParentBreadcrumb docNode)
                           (ParentWasMap docNode) (Key docNode) (Comment docNode)
                           (KindTag docNode) (Default docNode) children))
        | SequenceNode \<Rightarrow>
            if length (Content next) = 0 then
              Inr (DocNode (NodeColumn currNode) parentBreadcrumb parentWasMap (Value currNode)
                     (HeadComment currNode) (Tag next) ''[]'' [])
            else if allScalars (Content next) then
              (case toInlineYaml pkg (Content next) of
                 Inl err \<Rightarrow> Inl (ParseError parentBreadcrumb (Value currNode) err)
               | Inr inlineYaml \<Rightarrow>
                   Inr (DocNode (NodeColumn currNode) parentBreadcrumb parentWasMap
                          (Value currNode) (HeadComment currNode) (Tag next) inlineYaml []))
            else
              (let docNode = DocNode (NodeColumn currNode) parentBreadcrumb parentWasMap
                               (Value currNode) (HeadComment currNode) (Tag next) [] []
               in case parseNodeContent pkg (Content next) (HTMLAnchor pkg docNode) False of
                    Inl err \<Rightarrow> Inl err
                  | Inr children \<Rightarrow>
                      Inr (DocNode (Column docNode) (ParentBreadcrumb docNode)
                             (ParentWasMap docNode) (Key docNode) (Comment docNode)
                             (KindTag docNode) (Default docNode) children))
        | _ \<Rightarrow>
            Inl (Errorf (''fell through cases unexpectedly at breadcrumb: '' @ parentBreadcrumb)))"

subsection \<open>generateTOC\<close>

definition tocPrefix :: string where
  "tocPrefix = ''## Top-Level Stanzas\<newline>\<newline>Use these links to navigate to a particular top-level stanza.\<newline>\<newline>''"

definition tocSuffix :: string where
  "tocSuffix = ''\<newline>## All Values''"

text \<open>
  The loop appends one line to \<^verbatim>\<open>toc\<close> for each child: the format
  \<^verbatim>\<open>"- [`%s`](#%s)\n"\<close> applied to the key and to \<^verbatim>\<open>strings.ToLower\<close> of the key.
  The character \<open>CHR 0x60\<close> is the backquote of the format.
\<close>

fun generateTOC_loop :: "(string \<Rightarrow> string) \<Rightarrow> string \<Rightarrow> DocNode list \<Rightarrow> string" where
  "generateTOC_loop ToLower toc [] = toc"
| "generateTOC_loop ToLower toc (c # cs) =
     generateTOC_loop ToLower
       (toc @ ''- ['' @ [CHR 0x60] @ Key c @ [CHR 0x60] @ ''](#'' @ ToLower (Key c) @ '')\<newline>'') cs"

definition generateTOC :: "(string \<Rightarrow> string) \<Rightarrow> DocNode \<Rightarrow> string" where
  "generateTOC ToLower node = generateTOC_loop ToLower tocPrefix (Children node) @ tocSuffix"

section \<open>Instances of the parameters\<close>

text \<open>
  The theorems below hold for every value of the parameters. The definitions of this
  section give each parameter one concrete value, on which the functions of main.go are
  evaluated.
\<close>

text \<open>
  Modelled from the spec: the regular expression \<^verbatim>\<open>recurseAnnotation\<close> is declared
  outside main.go. Section 6 gives the annotation as a line of the form
  \<^verbatim>\<open>@recurse: true|false\<close> inside the comment: group 1 is the text that follows the
  first \<^verbatim>\<open>@recurse: \<close> up to the end of its line.
\<close>

fun afterMarker :: "string \<Rightarrow> string \<Rightarrow> string option" where
  "afterMarker m [] = (if m = [] then Some [] else None)"
| "afterMarker m (c # cs) =
     (if take (length m) (c # cs) = m then Some (drop (length m) (c # cs)) else afterMarker m cs)"

definition recurseSubmatch :: "string \<Rightarrow> string list" where
  "recurseSubmatch comment =
     (case afterMarker ''@recurse: '' comment of
        None \<Rightarrow> []
      | Some rest \<Rightarrow> [comment, takeWhile (\<lambda>c. c \<noteq> CHR 0x0A) rest])"

text \<open>
  Modelled from the spec: \<^verbatim>\<open>toInlineYaml\<close> is not in main.go. Section 4.3: a sequence
  of scalar nodes is rendered as a single-line bracketed, comma-separated literal
  (section 8: the scalars joined by \<^verbatim>\<open>", "\<close> inside \<^verbatim>\<open>[\<close> and \<^verbatim>\<open>]\<close>); it fails if an
  element cannot be serialised as a scalar.
\<close>

fun joinWith :: "string \<Rightarrow> string list \<Rightarrow> string" where
  "joinWith sep [] = []"
| "joinWith sep [x] = x"
| "joinWith sep (x # y # ys) = x @ sep @ joinWith sep (y # ys)"

definition toInlineYaml_spec :: "yaml_node list \<Rightarrow> string + string" where
  "toInlineYaml_spec content =
     (if list_all (\<lambda>n. Kind n = ScalarNode) content
      then Inr (''['' @ joinWith '', '' (map Value content) @ '']'')
      else Inl ''cannot serialize a non-scalar element inline'')"

text \<open>
  Modelled from the spec: \<^verbatim>\<open>HTMLAnchor\<close> is not in main.go. Section 4.2: the anchor is
  computed from the breadcrumb and the key. This instance joins the two with a dash.
\<close>

definition breadcrumbAnchor :: "DocNode \<Rightarrow> string" where
  "breadcrumbAnchor n =
     (if ParentBreadcrumb n = [] then Key n else ParentBreadcrumb n @ ''-'' @ Key n)"

text \<open>
  Modelled from the spec: \<^verbatim>\<open>parseNodeContent\<close> is not in main.go. Section 4.2: the
  content of a mapping is a flat alternating sequence of keys and values, and each key
  is built together with the value at the next position. \<open>walkPairs\<close> calls the builder
  on every second node, and \<open>examplePackage d\<close> follows nested containers to depth
  \<open>d\<close>.
\<close>

fun walkPairs :: "(int \<Rightarrow> yaml_node \<Rightarrow> error + DocNode) \<Rightarrow> int \<Rightarrow> yaml_node list \<Rightarrow> error + DocNode list" where
  "walkPairs build i [] = Inr []"
| "walkPairs build i [k] = (case build i k of Inl err \<Rightarrow> Inl err | Inr d \<Rightarrow> Inr [d])"
| "walkPairs build i (k # v # rest) =
     (case build i k of
        Inl err \<Rightarrow> Inl err
      | Inr d \<Rightarrow>
          (case walkPairs build (i + 2) rest of
             Inl err \<Rightarrow> Inl err
           | Inr ds \<Rightarrow> Inr (d # ds)))"

primrec examplePackage :: "nat \<Rightarrow> package" where
  "examplePackage 0 =
     \<lparr>FindStringSubmatch = recurseSubmatch, toInlineYaml = toInlineYaml_spec,
      HTMLAnchor = breadcrumbAnchor,
      parseNodeContent = (\<lambda>content breadcrumb wasMap. Inl (Errorf ''nesting too deep''))\<rparr>"
| "examplePackage (Suc d) =
     \<lparr>FindStringSubmatch = recurseSubmatch, toInlineYaml = toInlineYaml_spec,
      HTMLAnchor = breadcrumbAnchor,
      parseNodeContent = (\<lambda>content breadcrumb wasMap.
         walkPairs (\<lambda>i k. buildDocNode (examplePackage d) i k content breadcrumb wasMap) 0 content)\<rparr>"

text \<open>
  Modelled from the spec: \<^verbatim>\<open>Parse\<close>, \<^verbatim>\<open>FormatAsTables\<close> and \<^verbatim>\<open>FormatAsList\<close> are not
  in main.go, and the yaml parser is a library. Section 7: a malformed document fails
  with an error that aborts the generation. Section 8: the document \<^verbatim>\<open>a: true\<close> gives
  one leaf with key \<^verbatim>\<open>a\<close> and default \<^verbatim>\<open>true\<close>. \<open>exampleParse\<close> knows that one
  document and rejects every other text; \<open>exampleFormat\<close> renders the table of
  contents alone, with the lowercasing of the ASCII letters.
\<close>

definition exampleParse :: "string \<Rightarrow> error + DocNode" where
  "exampleParse yamlStr =
     (if yamlStr = ''a: true''
      then Inr (DocNode 0 [] False [] [] [] [] [DocNode 1 [] False ''a'' [] ''!!bool'' ''true'' []])
      else Inl (Errorf ''yaml: document not understood''))"

definition asciiToLower :: "string \<Rightarrow> string" where
  "asciiToLower s =
     map (\<lambda>c. if (65::nat) \<le> of_char c \<and> (of_char c :: nat) \<le> 90
              then char_of ((of_char c :: nat) + 32) else c) s"

definition exampleFormat :: "DocNode \<Rightarrow> error + string" where
  "exampleFormat node = Inr (generateTOC asciiToLower node)"

section \<open>The conditions of buildDocNode\<close>

text \<open>
  The first test of \<^verbatim>\<open>buildDocNode\<close>, \<^verbatim>\<open>len(match) > 0 && match[1] == "false"\<close>, read
  on a match that has its group 1: \<open>recurseFalse\<close> when the test succeeds,
  \<open>recurseContinues\<close> when it fails without a panic (no match at all, or a group 1
  other than \<^verbatim>\<open>false\<close>).
\<close>

definition recurseFalse :: "package \<Rightarrow> yaml_node \<Rightarrow> bool" where
  "recurseFalse pkg currNode =
     (let match = FindStringSubmatch pkg (HeadComment currNode)
      in 1 < length match \<and> match ! 1 = ''false'')"

definition recurseContinues :: "package \<Rightarrow> yaml_node \<Rightarrow> bool" where
  "recurseContinues pkg currNode =
     (let match = FindStringSubmatch pkg (HeadComment currNode)
      in match = [] \<or> (1 < length match \<and> match ! 1 \<noteq> ''false''))"

text \<open>
  \<open>pairedValue idx nodeContent next\<close>: the slice holds \<open>next\<close> at the position after
  the key, \<^verbatim>\<open>nodeContent[nodeContentIdx+1]\<close>, with the sum as Go computes it.
\<close>

definition pairedValue :: "int \<Rightarrow> yaml_node list \<Rightarrow> yaml_node \<Rightarrow> bool" where
  "pairedValue nodeContentIdx nodeContent next =
     (0 \<le> int64 (nodeContentIdx + 1)
      \<and> int64 (nodeContentIdx + 1) < int (length nodeContent)
      \<and> nodeContent ! nat (int64 (nodeContentIdx + 1)) = next)"

text \<open>
  \<open>emptyValue\<close>: the value \<open>next\<close> of a key leaves both \<open>Default\<close> and \<open>Children\<close> of its
  node empty. It is a scalar whose text is empty, a non-empty sequence of scalars that
  \<^verbatim>\<open>toInlineYaml\<close> renders as the empty string, or a mapping or other non-empty
  sequence for which \<^verbatim>\<open>parseNodeContent\<close>, called as \<open>buildDocNode\<close> calls it, returns no
  children. An empty sequence is never an empty value: its \<open>Default\<close> is \<^verbatim>\<open>[]\<close>.
\<close>

definition emptyValue :: "package \<Rightarrow> yaml_node \<Rightarrow> yaml_node \<Rightarrow> string \<Rightarrow> bool \<Rightarrow> bool" where
  "emptyValue pkg currNode next parentBreadcrumb parentWasMap =
     (let docNode = DocNode (NodeColumn currNode) parentBreadcrumb parentWasMap
                      (Value currNode) (HeadComment currNode) (Tag next) [] []
      in case Kind next of
           ScalarNode \<Rightarrow> Value next = []
         | MappingNode \<Rightarrow>
             parseNodeContent pkg (Content next) (HTMLAnchor pkg docNode) False = Inr []
         | SequenceNode \<Rightarrow>
             Content next \<noteq> []
             \<and> (if allScalars (Content next)
                  then toInlineYaml pkg (Content next) = Inr []
                  else parseNodeContent pkg (Content next) (HTMLAnchor pkg docNode) False = Inr [])
         | _ \<Rightarrow> False)"

section \<open>The table of contents\<close>

lemma generateTOC_loop_append:
  "generateTOC_loop ToLower toc cs =
     toc @ concat (map (\<lambda>k. ''- ['' @ [CHR 0x60] @ k @ [CHR 0x60] @ ''](#'' @ ToLower k @ '')\<newline>'')
                       (map Key cs))"
  by (induction cs arbitrary: toc) simp_all

text \<open>
  C7. For every root node, \<open>generateTOC\<close> returns the fixed prefix, then one link line
  for each direct child of the root in the order of \<open>Children\<close>, with the child's key
  as the link text and the lowercased key as the link target, then the fixed suffix.
  The result is a function of the keys of the direct children alone: nothing below
  depth 1 is read.
\<close>

theorem generateTOC_lists_direct_children:
  "generateTOC ToLower node =
     ''## Top-Level Stanzas\<newline>\<newline>Use these links to navigate to a particular top-level stanza.\<newline>\<newline>''
     @ concat (map (\<lambda>k. ''- ['' @ [CHR 0x60] @ k @ [CHR 0x60] @ ''](#'' @ ToLower k @ '')\<newline>'')
                   (map Key (Children node)))
     @ ''\<newline>## All Values''"
  unfolding generateTOC_def generateTOC_loop_append tocPrefix_def tocSuffix_def by simp

section \<open>The branches of buildDocNode\<close>

text \<open>
  Three facts that the later proofs share: the result on an annotated key, the result
  when the slice holds a value after the key, and the result when it holds none.
\<close>

lemma buildDocNode_annotated:
  assumes "recurseFalse pkg currNode"
  shows "buildDocNode pkg idx currNode nodeContent pb pwm =
     Inr (DocNode (NodeColumn currNode) pb False (Value currNode) (HeadComment currNode) [] [] [])"
proof -
  let ?m = "FindStringSubmatch pkg (HeadComment currNode)"
  from assms have a: "\<not> (length ?m > 0 \<and> \<not> 1 < length ?m)"
    and b: "length ?m > 0 \<and> ?m ! 1 = ''false''"
    unfolding recurseFalse_def by (auto simp: Let_def)
  show ?thesis
    unfolding buildDocNode_def Let_def by (subst if_not_P [OF a], subst if_P [OF b]) (rule refl)
qed

lemma buildDocNode_continues:
  assumes "recurseContinues pkg currNode" and "pairedValue idx nodeContent next"
  shows "buildDocNode pkg idx currNode nodeContent pb pwm =
     (case Kind next of
          ScalarNode \<Rightarrow>
            Inr (DocNode (NodeColumn currNode) pb pwm (Value currNode)
                   (HeadComment currNode) (Tag next) (Value next) [])
        | MappingNode \<Rightarrow>
            (case parseNodeContent pkg (Content next)
                    (HTMLAnchor pkg (DocNode (NodeColumn currNode) pb pwm
                             (Value currNode) (HeadComment currNode) (Tag next) [] [])) False of
                  Inl err \<Rightarrow> Inl err
                | Inr children \<Rightarrow>
                    Inr (DocNode (NodeColumn currNode) pb pwm
                             (Value currNode) (HeadComment currNode) (Tag next) [] children))
        | SequenceNode \<Rightarrow>
            if Content next = [] then
              Inr (DocNode (NodeColumn currNode) pb pwm (Value currNode)
                     (HeadComment currNode) (Tag next) ''[]'' [])
            else if allScalars (Content next) then
              (case toInlineYaml pkg (Content next) of
                 Inl err \<Rightarrow> Inl (ParseError pb (Value currNode) err)
               | Inr inlineYaml \<Rightarrow>
                   Inr (DocNode (NodeColumn currNode) pb pwm
                          (Value currNode) (HeadComment currNode) (Tag next) inlineYaml []))
            else
             (case parseNodeContent pkg (Content next)
                    (HTMLAnchor pkg (DocNode (NodeColumn currNode) pb pwm
                             (Value currNode) (HeadComment currNode) (Tag next) [] [])) False of
                  Inl err \<Rightarrow> Inl err
                | Inr children \<Rightarrow>
                    Inr (DocNode (NodeColumn currNode) pb pwm
                             (Value currNode) (HeadComment currNode) (Tag next) [] children))
        | _ \<Rightarrow>
            Inl (Errorf (''fell through cases unexpectedly at breadcrumb: '' @ pb)))"
proof -
  from assms(2) have r: "\<not> int (length nodeContent) < int64 (idx + 1)"
      "\<not> (int64 (idx + 1) < 0 \<or> int (length nodeContent) \<le> int64 (idx + 1))"
      "nodeContent ! nat (int64 (idx + 1)) = next"
    unfolding pairedValue_def by auto
  from assms(1) have m: "\<not> (length (FindStringSubmatch pkg (HeadComment currNode)) > 0
        \<and> \<not> 1 < length (FindStringSubmatch pkg (HeadComment currNode)))"
     "\<not> (length (FindStringSubmatch pkg (HeadComment currNode)) > 0
        \<and> FindStringSubmatch pkg (HeadComment currNode) ! 1 = ''false'')"
    unfolding recurseContinues_def by (auto simp: Let_def)
  show ?thesis
    unfolding buildDocNode_def Let_def
    by (subst if_not_P [OF m(1)], subst if_not_P [OF m(2)], subst if_not_P [OF r(1)],
        subst if_not_P [OF r(2)], simp only: r(3)) (cases "Kind next"; simp split: sum.split)
qed

lemma allScalars_list_all:
  "allScalars content \<Longrightarrow> list_all (\<lambda>n. Kind n = ScalarNode) content"
  by (induction content) (simp_all split: if_splits)

lemma buildDocNode_unpaired:
  assumes "recurseContinues pkg currNode"
    and "\<not> (0 \<le> int64 (idx + 1) \<and> int64 (idx + 1) < int (length nodeContent))"
  shows "buildDocNode pkg idx currNode nodeContent pb pwm =
     (if int (length nodeContent) < int64 (idx + 1)
      then Inl (ParseError pb (Value currNode)
               (''content length incorrect, expected '' @ showInt (int64 (idx + 1))
                  @ '' got '' @ showInt (int (length nodeContent))))
      else Inl (Panic ''index out of range''))"
proof -
  let ?m = "FindStringSubmatch pkg (HeadComment currNode)"
  from assms(1) have m: "\<not> (length ?m > 0 \<and> \<not> 1 < length ?m)"
     "\<not> (length ?m > 0 \<and> ?m ! 1 = ''false'')"
    unfolding recurseContinues_def by (auto simp: Let_def)
  from assms(2) have r: "int64 (idx + 1) < 0 \<or> int (length nodeContent) \<le> int64 (idx + 1)"
    by auto
  show ?thesis
    unfolding buildDocNode_def Let_def
    by (subst if_not_P [OF m(1)], subst if_not_P [OF m(2)], subst if_P [OF r]) (rule refl)
qed

section \<open>The annotation \<^verbatim>\<open>@recurse: false\<close>\<close>

text \<open>
  C1. For every key node whose comment carries the annotation \<^verbatim>\<open>@recurse: false\<close>,
  \<open>buildDocNode\<close> returns a leaf built from the key node (its value, comment and column)
  and the parent breadcrumb, with no \<open>Children\<close>. The paired value is not inspected:
  the result is the same for every content slice, every index, every flag and every
  \<open>parseNodeContent\<close>, \<open>toInlineYaml\<close> and \<open>HTMLAnchor\<close>, also when the value is a
  mapping or a sequence with children of its own.
\<close>

theorem buildDocNode_recurse_false_leaf:
  assumes "recurseFalse pkg currNode"
  shows "buildDocNode pkg idx currNode nodeContent pb pwm =
           Inr (DocNode (NodeColumn currNode) pb False (Value currNode) (HeadComment currNode) [] [] [])
         \<and> (FindStringSubmatch pkg' = FindStringSubmatch pkg \<longrightarrow>
              buildDocNode pkg' idx' currNode nodeContent' pb pwm'
                = buildDocNode pkg idx currNode nodeContent pb pwm)"
proof -
  have "recurseFalse pkg' currNode" if "FindStringSubmatch pkg' = FindStringSubmatch pkg"
    using assms that unfolding recurseFalse_def by simp
  then show ?thesis
    using assms by (simp add: buildDocNode_annotated)
qed

theorem buildDocNode_recurse_false_leaf_witness:
  "recurseFalse (examplePackage (Suc (Suc 0))) (Node ScalarNode ''!!str'' ''d'' ''# @recurse: false'' 1 [])
   \<and> buildDocNode (examplePackage (Suc (Suc 0))) 0
        (Node ScalarNode ''!!str'' ''d'' ''# @recurse: false'' 1 [])
        [Node ScalarNode ''!!str'' ''d'' ''# @recurse: false'' 1 [],
         Node MappingNode ''!!map'' [] [] 3
           [Node ScalarNode ''!!str'' ''e'' [] 3 [],
            Node MappingNode ''!!map'' [] [] 5
              [Node ScalarNode ''!!str'' ''f'' [] 5 [], Node ScalarNode ''!!int'' ''1'' [] 8 []]]]
        [] True
      = Inr (DocNode 1 [] False ''d'' ''# @recurse: false'' [] [] [])
   \<and> FindStringSubmatch (examplePackage 0) = FindStringSubmatch (examplePackage (Suc (Suc 0)))
   \<and> buildDocNode (examplePackage 0) 0
        (Node ScalarNode ''!!str'' ''d'' ''# @recurse: false'' 1 [])
        [Node ScalarNode ''!!str'' ''d'' ''# @recurse: false'' 1 [],
         Node ScalarNode ''!!int'' ''7'' [] 4 []]
        [] False
      = Inr (DocNode 1 [] False ''d'' ''# @recurse: false'' [] [] [])"
proof -
  let ?d = "Node ScalarNode ''!!str'' ''d'' ''# @recurse: false'' 1 []"
  let ?m = "Node MappingNode ''!!map'' [] [] 3
           [Node ScalarNode ''!!str'' ''e'' [] 3 [],
            Node MappingNode ''!!map'' [] [] 5
              [Node ScalarNode ''!!str'' ''f'' [] 5 [], Node ScalarNode ''!!int'' ''1'' [] 8 []]]"
  let ?v = "Node ScalarNode ''!!int'' ''7'' [] 4 []"
  have h: "recurseFalse (examplePackage (Suc (Suc 0))) ?d"
    by (simp add: recurseFalse_def recurseSubmatch_def)
  have e: "FindStringSubmatch (examplePackage 0) = FindStringSubmatch (examplePackage (Suc (Suc 0)))"
    by simp
  from buildDocNode_recurse_false_leaf [OF h, where pb = "[]" and idx = 0 and pwm = True
      and nodeContent = "[?d, ?m]" and pkg' = "examplePackage 0" and idx' = 0 and pwm' = False
      and nodeContent' = "[?d, ?v]"]
  have "buildDocNode (examplePackage (Suc (Suc 0))) 0 ?d [?d, ?m] [] True
          = Inr (DocNode 1 [] False ''d'' ''# @recurse: false'' [] [] [])"
    and "buildDocNode (examplePackage 0) 0 ?d [?d, ?v] [] False
          = Inr (DocNode 1 [] False ''d'' ''# @recurse: false'' [] [] [])"
    using e by simp_all
  with h e show ?thesis by blast
qed

text \<open>
  C10. When the comment of the key matches \<^verbatim>\<open>@recurse: false\<close>, \<open>buildDocNode\<close> returns
  before the test of the content length: it succeeds for every content slice, also one
  that holds no value after the key. The node it returns has \<open>ParentWasMap\<close> false
  whatever the argument \<^verbatim>\<open>parentWasMap\<close>, and an empty \<open>KindTag\<close> and \<open>Default\<close>.
\<close>

theorem buildDocNode_recurse_false_before_pairing_check:
  assumes "recurseFalse pkg currNode"
  shows "\<exists>n. buildDocNode pkg idx currNode nodeContent pb pwm = Inr n
              \<and> \<not> ParentWasMap n \<and> KindTag n = [] \<and> Default n = []"
  using assms by (simp add: buildDocNode_annotated)

theorem buildDocNode_recurse_false_before_pairing_check_witness:
  "recurseFalse (examplePackage 0) (Node ScalarNode ''!!str'' ''d'' ''# @recurse: false'' 1 [])
   \<and> int (length [Node ScalarNode ''!!str'' ''d'' ''# @recurse: false'' 1 []]) \<le> 0 + 1
   \<and> (\<exists>n. buildDocNode (examplePackage 0) 0
              (Node ScalarNode ''!!str'' ''d'' ''# @recurse: false'' 1 [])
              [Node ScalarNode ''!!str'' ''d'' ''# @recurse: false'' 1 []] ''root'' True = Inr n
            \<and> \<not> ParentWasMap n \<and> KindTag n = [] \<and> Default n = [])"
proof -
  have h: "recurseFalse (examplePackage 0) (Node ScalarNode ''!!str'' ''d'' ''# @recurse: false'' 1 [])"
    by (simp add: recurseFalse_def recurseSubmatch_def)
  show ?thesis
    using h buildDocNode_recurse_false_before_pairing_check [OF h] by simp
qed

section \<open>A key without a paired value\<close>

text \<open>
  C4. A key that carries no annotation \<^verbatim>\<open>@recurse: false\<close> and has no value after it in
  the content slice: the claim is a \<open>ParseError\<close> with the parent breadcrumb and the
  value of the key, and never a panic. The program tests
  \<^verbatim>\<open>len(nodeContent) < nodeContentIdx+1\<close> and then reads
  \<^verbatim>\<open>nodeContent[nodeContentIdx+1]\<close>. When the key is the last node of the slice
  (\<^verbatim>\<open>len(nodeContent) = nodeContentIdx+1\<close>) the test passes and the read is out of
  range: the program panics. Only a slice shorter than that gives the \<open>ParseError\<close>.
  The sum is the one Go computes: where it wraps to a negative number the test passes
  too, and the read at a negative index panics.
\<close>

theorem buildDocNode_key_without_value:
  assumes "recurseContinues pkg currNode"
  shows "(int (length nodeContent) = int64 (idx + 1) \<longrightarrow>
            buildDocNode pkg idx currNode nodeContent pb pwm = Inl (Panic ''index out of range''))
       \<and> (int (length nodeContent) < int64 (idx + 1) \<longrightarrow>
            buildDocNode pkg idx currNode nodeContent pb pwm =
              Inl (ParseError pb (Value currNode)
                     (''content length incorrect, expected '' @ showInt (int64 (idx + 1))
                        @ '' got '' @ showInt (int (length nodeContent)))))
       \<and> (int64 (idx + 1) < 0 \<longrightarrow>
            buildDocNode pkg idx currNode nodeContent pb pwm = Inl (Panic ''index out of range''))"
  using assms by (simp add: buildDocNode_unpaired)

theorem buildDocNode_key_without_value_witness:
  "recurseContinues (examplePackage 0) (Node ScalarNode ''!!str'' ''b'' [] 1 [])
   \<and> buildDocNode (examplePackage 0) 0 (Node ScalarNode ''!!str'' ''b'' [] 1 [])
        [Node ScalarNode ''!!str'' ''b'' [] 1 []] ''root'' False
      = Inl (Panic ''index out of range'')
   \<and> buildDocNode (examplePackage 0) 5 (Node ScalarNode ''!!str'' ''b'' [] 1 []) [] ''root'' False
      = Inl (ParseError ''root'' ''b'' ''content length incorrect, expected 6 got 0'')
   \<and> buildDocNode (examplePackage 0) 9223372036854775807
        (Node ScalarNode ''!!str'' ''b'' [] 1 []) [] ''root'' False
      = Inl (Panic ''index out of range'')"
proof -
  have h: "recurseContinues (examplePackage 0) (Node ScalarNode ''!!str'' ''b'' [] 1 [])"
    by (simp add: recurseContinues_def recurseSubmatch_def)
  show ?thesis
    using h
      buildDocNode_key_without_value [OF h, of "[Node ScalarNode ''!!str'' ''b'' [] 1 []]" 0 "''root''" False]
      buildDocNode_key_without_value [OF h, of "[]" 5 "''root''" False]
      buildDocNode_key_without_value [OF h, of "[]" 9223372036854775807 "''root''" False]
    by (simp add: showInt_def showNat.simps int64_def)
qed

section \<open>Sequences\<close>

text \<open>
  C6, as amended. For every key that carries no annotation \<^verbatim>\<open>@recurse: false\<close> and whose
  paired value is an empty sequence, \<open>buildDocNode\<close> returns a leaf whose \<open>Default\<close> is
  the string \<^verbatim>\<open>[]\<close> and which has no \<open>Children\<close>.
\<close>

theorem buildDocNode_empty_sequence:
  assumes "recurseContinues pkg currNode" and "pairedValue idx nodeContent next"
    and "Kind next = SequenceNode" and "Content next = []"
  shows "buildDocNode pkg idx currNode nodeContent pb pwm =
     Inr (DocNode (NodeColumn currNode) pb pwm (Value currNode) (HeadComment currNode)
            (Tag next) ''[]'' [])"
  using assms(3,4) by (simp add: buildDocNode_continues [OF assms(1,2)])

theorem buildDocNode_empty_sequence_witness:
  "recurseContinues (examplePackage 0) (Node ScalarNode ''!!str'' ''k'' ''# the list'' 1 [])
   \<and> pairedValue 0 [Node ScalarNode ''!!str'' ''k'' ''# the list'' 1 [],
                     Node SequenceNode ''!!seq'' [] [] 4 []]
         (Node SequenceNode ''!!seq'' [] [] 4 [])
   \<and> buildDocNode (examplePackage 0) 0 (Node ScalarNode ''!!str'' ''k'' ''# the list'' 1 [])
        [Node ScalarNode ''!!str'' ''k'' ''# the list'' 1 [],
         Node SequenceNode ''!!seq'' [] [] 4 []] [] True
      = Inr (DocNode 1 [] True ''k'' ''# the list'' ''!!seq'' ''[]'' [])"
proof -
  have h: "recurseContinues (examplePackage 0) (Node ScalarNode ''!!str'' ''k'' ''# the list'' 1 [])"
    by (simp add: recurseContinues_def recurseSubmatch_def)
  have p: "pairedValue 0 [Node ScalarNode ''!!str'' ''k'' ''# the list'' 1 [],
                     Node SequenceNode ''!!seq'' [] [] 4 []]
         (Node SequenceNode ''!!seq'' [] [] 4 [])"
    by (simp add: pairedValue_def int64_def)
  show ?thesis
    using h p buildDocNode_empty_sequence [OF h p, of "[]" True] by simp
qed

text \<open>
  The claim as it is written, for every key, fails on a key that carries the annotation:
  the first test of \<open>buildDocNode\<close> returns the annotated leaf, whose \<open>Default\<close> is
  empty, before the value is read.
\<close>

theorem buildDocNode_empty_sequence_counterexample:
  "buildDocNode (examplePackage 0) 0 (Node ScalarNode ''!!str'' ''k'' ''# @recurse: false'' 1 [])
        [Node ScalarNode ''!!str'' ''k'' ''# @recurse: false'' 1 [],
         Node SequenceNode ''!!seq'' [] [] 4 []] [] True
      = Inr (DocNode 1 [] False ''k'' ''# @recurse: false'' [] [] [])"
  by (simp add: buildDocNode_def recurseSubmatch_def int64_def)

text \<open>
  C5, as amended. For every key that carries no annotation \<^verbatim>\<open>@recurse: false\<close> and whose
  paired value is a non-empty sequence that \<open>allScalars\<close> accepts (every element a scalar
  node with no content of its own), \<open>buildDocNode\<close> returns a leaf whose \<open>Default\<close> is
  the inline form of the elements: their texts joined by a comma and a space, between
  \<^verbatim>\<open>[\<close> and \<^verbatim>\<open>]\<close>. The inline form is that of \<open>toInlineYaml_spec\<close>.
\<close>

theorem buildDocNode_scalar_sequence_inline:
  assumes "recurseContinues pkg currNode" and "pairedValue idx nodeContent next"
    and "Kind next = SequenceNode" and "Content next \<noteq> []" and "allScalars (Content next)"
  shows "buildDocNode (pkg\<lparr>toInlineYaml := toInlineYaml_spec\<rparr>) idx currNode nodeContent pb pwm =
     Inr (DocNode (NodeColumn currNode) pb pwm (Value currNode) (HeadComment currNode)
            (Tag next) (''['' @ joinWith '', '' (map Value (Content next)) @ '']'') [])"
proof -
  have c: "recurseContinues (pkg\<lparr>toInlineYaml := toInlineYaml_spec\<rparr>) currNode"
    using assms(1) unfolding recurseContinues_def by simp
  have t: "toInlineYaml_spec (Content next) =
             Inr (''['' @ joinWith '', '' (map Value (Content next)) @ '']'')"
    unfolding toInlineYaml_spec_def using allScalars_list_all [OF assms(5)] by simp
  show ?thesis
    using assms(3,4,5) t by (simp add: buildDocNode_continues [OF c assms(2)])
qed

theorem buildDocNode_scalar_sequence_inline_witness:
  "recurseContinues (examplePackage 0) (Node ScalarNode ''!!str'' ''b'' [] 1 [])
   \<and> pairedValue 0 [Node ScalarNode ''!!str'' ''b'' [] 1 [],
                     Node SequenceNode ''!!seq'' [] [] 4
                       [Node ScalarNode ''!!int'' ''1'' [] 5 [], Node ScalarNode ''!!int'' ''2'' [] 8 [],
                        Node ScalarNode ''!!int'' ''3'' [] 11 []]]
         (Node SequenceNode ''!!seq'' [] [] 4
                       [Node ScalarNode ''!!int'' ''1'' [] 5 [], Node ScalarNode ''!!int'' ''2'' [] 8 [],
                        Node ScalarNode ''!!int'' ''3'' [] 11 []])
   \<and> allScalars [Node ScalarNode ''!!int'' ''1'' [] 5 [], Node ScalarNode ''!!int'' ''2'' [] 8 [],
                  Node ScalarNode ''!!int'' ''3'' [] 11 []]
   \<and> buildDocNode ((examplePackage 0)\<lparr>toInlineYaml := toInlineYaml_spec\<rparr>) 0
        (Node ScalarNode ''!!str'' ''b'' [] 1 [])
        [Node ScalarNode ''!!str'' ''b'' [] 1 [],
         Node SequenceNode ''!!seq'' [] [] 4
           [Node ScalarNode ''!!int'' ''1'' [] 5 [], Node ScalarNode ''!!int'' ''2'' [] 8 [],
            Node ScalarNode ''!!int'' ''3'' [] 11 []]] [] False
      = Inr (DocNode 1 [] False ''b'' [] ''!!seq'' ''[1, 2, 3]'' [])"
proof -
  have h: "recurseContinues (examplePackage 0) (Node ScalarNode ''!!str'' ''b'' [] 1 [])"
    by (simp add: recurseContinues_def recurseSubmatch_def)
  have p: "pairedValue 0 [Node ScalarNode ''!!str'' ''b'' [] 1 [],
                     Node SequenceNode ''!!seq'' [] [] 4
                       [Node ScalarNode ''!!int'' ''1'' [] 5 [], Node ScalarNode ''!!int'' ''2'' [] 8 [],
                        Node ScalarNode ''!!int'' ''3'' [] 11 []]]
         (Node SequenceNode ''!!seq'' [] [] 4
                       [Node ScalarNode ''!!int'' ''1'' [] 5 [], Node ScalarNode ''!!int'' ''2'' [] 8 [],
                        Node ScalarNode ''!!int'' ''3'' [] 11 []])"
    by (simp add: pairedValue_def int64_def)
  have a: "allScalars [Node ScalarNode ''!!int'' ''1'' [] 5 [], Node ScalarNode ''!!int'' ''2'' [] 8 [],
                  Node ScalarNode ''!!int'' ''3'' [] 11 []]"
    by simp
  show ?thesis
    using h p a buildDocNode_scalar_sequence_inline [OF h p, of "[]" False] by simp
qed

text \<open>
  On a key that carries the annotation the value is not read, and the \<open>Default\<close> of the
  leaf is empty whatever the sequence holds.
\<close>

theorem buildDocNode_scalar_sequence_inline_counterexample:
  "buildDocNode ((examplePackage 0)\<lparr>toInlineYaml := toInlineYaml_spec\<rparr>) 0
        (Node ScalarNode ''!!str'' ''b'' ''# @recurse: false'' 1 [])
        [Node ScalarNode ''!!str'' ''b'' ''# @recurse: false'' 1 [],
         Node SequenceNode ''!!seq'' [] [] 4
           [Node ScalarNode ''!!str'' ''x'' [] 5 [], Node ScalarNode ''!!str'' ''y'' [] 8 []]] [] False
      = Inr (DocNode 1 [] False ''b'' ''# @recurse: false'' [] [] [])"
  by (simp add: buildDocNode_def recurseSubmatch_def int64_def)

section \<open>Containers\<close>

text \<open>
  C8. Whenever \<open>buildDocNode\<close> recurses into a container value (a mapping, or a non-empty
  sequence that is not all scalars), the children are those that \<open>parseNodeContent\<close>
  builds from the content of the value with the HTML anchor of this node as the parent
  breadcrumb and with the flag \<^verbatim>\<open>parentWasMap\<close> false. The call is the same for a
  mapping and for a sequence, and the same whatever flag this node was given.
\<close>

theorem buildDocNode_children_breadcrumb_and_flag:
  assumes "recurseContinues pkg currNode" and "pairedValue idx nodeContent next"
    and "Kind next = MappingNode
         \<or> (Kind next = SequenceNode \<and> Content next \<noteq> [] \<and> \<not> allScalars (Content next))"
  shows "buildDocNode pkg idx currNode nodeContent pb pwm =
     (case parseNodeContent pkg (Content next)
             (HTMLAnchor pkg (DocNode (NodeColumn currNode) pb pwm (Value currNode)
                                (HeadComment currNode) (Tag next) [] []))
             False of
        Inl err \<Rightarrow> Inl err
      | Inr children \<Rightarrow>
          Inr (DocNode (NodeColumn currNode) pb pwm (Value currNode) (HeadComment currNode)
                 (Tag next) [] children))"
  using assms(3) by (auto simp add: buildDocNode_continues [OF assms(1,2)])

theorem buildDocNode_children_breadcrumb_and_flag_witness:
  "recurseContinues (examplePackage (Suc 0)) (Node ScalarNode ''!!str'' ''b'' [] 1 [])
   \<and> pairedValue 0 [Node ScalarNode ''!!str'' ''b'' [] 1 [],
                     Node MappingNode ''!!map'' [] [] 3
                       [Node ScalarNode ''!!str'' ''c'' [] 3 [], Node ScalarNode ''!!str'' ''d'' [] 6 []]]
         (Node MappingNode ''!!map'' [] [] 3
                       [Node ScalarNode ''!!str'' ''c'' [] 3 [], Node ScalarNode ''!!str'' ''d'' [] 6 []])
   \<and> buildDocNode (examplePackage (Suc 0)) 0 (Node ScalarNode ''!!str'' ''b'' [] 1 [])
        [Node ScalarNode ''!!str'' ''b'' [] 1 [],
         Node MappingNode ''!!map'' [] [] 3
           [Node ScalarNode ''!!str'' ''c'' [] 3 [], Node ScalarNode ''!!str'' ''d'' [] 6 []]]
        [] True
      = Inr (DocNode 1 [] True ''b'' [] ''!!map'' []
               [DocNode 3 ''b'' False ''c'' [] ''!!str'' ''d'' []])"
proof -
  have h: "recurseContinues (examplePackage (Suc 0)) (Node ScalarNode ''!!str'' ''b'' [] 1 [])"
    by (simp add: recurseContinues_def recurseSubmatch_def)
  have p: "pairedValue 0 [Node ScalarNode ''!!str'' ''b'' [] 1 [],
                     Node MappingNode ''!!map'' [] [] 3
                       [Node ScalarNode ''!!str'' ''c'' [] 3 [], Node ScalarNode ''!!str'' ''d'' [] 6 []]]
         (Node MappingNode ''!!map'' [] [] 3
                       [Node ScalarNode ''!!str'' ''c'' [] 3 [], Node ScalarNode ''!!str'' ''d'' [] 6 []])"
    by (simp add: pairedValue_def int64_def)
  have c: "buildDocNode (examplePackage 0) 0 (Node ScalarNode ''!!str'' ''c'' [] 3 [])
             [Node ScalarNode ''!!str'' ''c'' [] 3 [], Node ScalarNode ''!!str'' ''d'' [] 6 []]
             ''b'' False
           = Inr (DocNode 3 ''b'' False ''c'' [] ''!!str'' ''d'' [])"
    by (simp add: buildDocNode_def recurseSubmatch_def int64_def)
  show ?thesis
    using h p buildDocNode_children_breadcrumb_and_flag [OF h p, of "[]" True]
    by (simp add: breadcrumbAnchor_def c [unfolded examplePackage.simps])
qed

text \<open>
  C2, as amended. Every \<open>DocNode\<close> that \<open>buildDocNode\<close> returns has a non-empty
  \<open>Default\<close> or non-empty \<open>Children\<close>, never both, except when the key carries the
  annotation \<^verbatim>\<open>@recurse: false\<close> or its value is empty (\<open>emptyValue\<close>: a scalar with
  empty text, a sequence of scalars rendered as the empty string, a mapping or other
  sequence that yields no children); in exactly those cases the node has neither.
\<close>

theorem buildDocNode_default_or_children_unless_empty:
  assumes "buildDocNode pkg idx currNode nodeContent pb pwm = Inr n"
  shows "(Default n = [] \<or> Children n = [])
         \<and> ((Default n = [] \<and> Children n = []) =
              (recurseFalse pkg currNode
               \<or> emptyValue pkg currNode (nodeContent ! nat (int64 (idx + 1))) pb pwm))"
proof (cases "recurseFalse pkg currNode")
  case True
  with assms show ?thesis
    by (auto simp: buildDocNode_annotated)
next
  case False
  let ?m = "FindStringSubmatch pkg (HeadComment currNode)"
  have np: "\<not> (length ?m > 0 \<and> \<not> 1 < length ?m)"
    using assms unfolding buildDocNode_def Let_def by (auto split: if_splits)
  with False have c: "recurseContinues pkg currNode"
    unfolding recurseFalse_def recurseContinues_def Let_def by auto
  let ?next = "nodeContent ! nat (int64 (idx + 1))"
  have p: "pairedValue idx nodeContent ?next"
  proof (rule ccontr)
    assume "\<not> pairedValue idx nodeContent ?next"
    then have "\<not> (0 \<le> int64 (idx + 1) \<and> int64 (idx + 1) < int (length nodeContent))"
      unfolding pairedValue_def by simp
    from buildDocNode_unpaired [OF c this] assms show False
      by (simp split: if_splits)
  qed
  from assms have e: "(case Kind ?next of
          ScalarNode \<Rightarrow>
            Inr (DocNode (NodeColumn currNode) pb pwm (Value currNode)
                   (HeadComment currNode) (Tag ?next) (Value ?next) [])
        | MappingNode \<Rightarrow>
            (case parseNodeContent pkg (Content ?next)
                    (HTMLAnchor pkg (DocNode (NodeColumn currNode) pb pwm
                             (Value currNode) (HeadComment currNode) (Tag ?next) [] [])) False of
                  Inl err \<Rightarrow> Inl err
                | Inr children \<Rightarrow>
                    Inr (DocNode (NodeColumn currNode) pb pwm
                             (Value currNode) (HeadComment currNode) (Tag ?next) [] children))
        | SequenceNode \<Rightarrow>
            if Content ?next = [] then
              Inr (DocNode (NodeColumn currNode) pb pwm (Value currNode)
                     (HeadComment currNode) (Tag ?next) ''[]'' [])
            else if allScalars (Content ?next) then
              (case toInlineYaml pkg (Content ?next) of
                 Inl err \<Rightarrow> Inl (ParseError pb (Value currNode) err)
               | Inr inlineYaml \<Rightarrow>
                   Inr (DocNode (NodeColumn currNode) pb pwm
                          (Value currNode) (HeadComment currNode) (Tag ?next) inlineYaml []))
            else
             (case parseNodeContent pkg (Content ?next)
                    (HTMLAnchor pkg (DocNode (NodeColumn currNode) pb pwm
                             (Value currNode) (HeadComment currNode) (Tag ?next) [] [])) False of
                  Inl err \<Rightarrow> Inl err
                | Inr children \<Rightarrow>
                    Inr (DocNode (NodeColumn currNode) pb pwm
                             (Value currNode) (HeadComment currNode) (Tag ?next) [] children))
        | _ \<Rightarrow>
            Inl (Errorf (''fell through cases unexpectedly at breadcrumb: '' @ pb))) = Inr n"
    unfolding buildDocNode_continues [OF c p] .
  show ?thesis
  proof (cases "Kind ?next")
    case ScalarNode
    with e False show ?thesis
      by (auto simp: emptyValue_def)
  next
    case MappingNode
    with e False show ?thesis
      by (auto simp: emptyValue_def Let_def split: sum.splits)
  next
    case SequenceNode
    with e False show ?thesis
      by (auto simp: emptyValue_def Let_def split: sum.splits if_splits)
  next
    case DocumentNode
    with e show ?thesis by simp
  next
    case AliasNode
    with e show ?thesis by simp
  qed
qed

theorem buildDocNode_default_or_children_unless_empty_witness:
  "buildDocNode (examplePackage (Suc 0)) 0 (Node ScalarNode ''!!str'' ''b'' [] 1 [])
        [Node ScalarNode ''!!str'' ''b'' [] 1 [],
         Node MappingNode ''!!map'' [] [] 3
           [Node ScalarNode ''!!str'' ''c'' [] 3 [], Node ScalarNode ''!!str'' ''d'' [] 6 []]]
        [] True
      = Inr (DocNode 1 [] True ''b'' [] ''!!map'' []
               [DocNode 3 ''b'' False ''c'' [] ''!!str'' ''d'' []])
   \<and> \<not> recurseFalse (examplePackage (Suc 0)) (Node ScalarNode ''!!str'' ''b'' [] 1 [])
   \<and> \<not> emptyValue (examplePackage (Suc 0)) (Node ScalarNode ''!!str'' ''b'' [] 1 [])
         (Node MappingNode ''!!map'' [] [] 3
            [Node ScalarNode ''!!str'' ''c'' [] 3 [], Node ScalarNode ''!!str'' ''d'' [] 6 []])
         [] True
   \<and> buildDocNode (examplePackage 0) 0 (Node ScalarNode ''!!str'' ''k'' [] 1 [])
        [Node ScalarNode ''!!str'' ''k'' [] 1 [], Node ScalarNode ''!!str'' [] [] 4 []] [] False
      = Inr (DocNode 1 [] False ''k'' [] ''!!str'' [] [])
   \<and> emptyValue (examplePackage 0) (Node ScalarNode ''!!str'' ''k'' [] 1 [])
         (Node ScalarNode ''!!str'' [] [] 4 []) [] False"
proof -
  let ?b = "Node ScalarNode ''!!str'' ''b'' [] 1 []"
  let ?m = "Node MappingNode ''!!map'' [] [] 3
           [Node ScalarNode ''!!str'' ''c'' [] 3 [], Node ScalarNode ''!!str'' ''d'' [] 6 []]"
  let ?k = "Node ScalarNode ''!!str'' ''k'' [] 1 []"
  let ?e = "Node ScalarNode ''!!str'' [] [] 4 []"
  have h: "buildDocNode (examplePackage (Suc 0)) 0 ?b [?b, ?m] [] True
      = Inr (DocNode 1 [] True ''b'' [] ''!!map'' []
               [DocNode 3 ''b'' False ''c'' [] ''!!str'' ''d'' []])"
    by (simp add: buildDocNode_def recurseSubmatch_def breadcrumbAnchor_def int64_def)
  have g: "buildDocNode (examplePackage 0) 0 ?k [?k, ?e] [] False
      = Inr (DocNode 1 [] False ''k'' [] ''!!str'' [] [])"
    by (simp add: buildDocNode_def recurseSubmatch_def int64_def)
  have i: "[?b, ?m] ! nat (int64 (0 + 1)) = ?m" "[?k, ?e] ! nat (int64 (0 + 1)) = ?e"
    by (simp_all add: int64_def)
  have r: "\<not> recurseFalse (examplePackage 0) ?k"
    by (simp add: recurseFalse_def recurseSubmatch_def)
  from buildDocNode_default_or_children_unless_empty [OF h]
  have a: "\<not> recurseFalse (examplePackage (Suc 0)) ?b
           \<and> \<not> emptyValue (examplePackage (Suc 0)) ?b ?m [] True"
    unfolding i by simp
  from buildDocNode_default_or_children_unless_empty [OF g] r
  have b: "emptyValue (examplePackage 0) ?k ?e [] False"
    unfolding i by simp
  from h g a b show ?thesis by blast
qed

text \<open>
  The claim as it is written gives every node outside the annotation branch a non-empty
  \<open>Default\<close> or non-empty \<open>Children\<close>. A key without annotation whose value is a scalar
  with empty text gets a node with neither: the text of the scalar is copied into
  \<open>Default\<close> as it is.
\<close>

theorem buildDocNode_default_or_children_counterexample:
  "recurseContinues (examplePackage 0) (Node ScalarNode ''!!str'' ''k'' [] 1 [])
   \<and> buildDocNode (examplePackage 0) 0 (Node ScalarNode ''!!str'' ''k'' [] 1 [])
        [Node ScalarNode ''!!str'' ''k'' [] 1 [], Node ScalarNode ''!!str'' [] [] 4 []] [] False
      = Inr (DocNode 1 [] False ''k'' [] ''!!str'' [] [])"
  by (simp add: buildDocNode_def recurseContinues_def recurseSubmatch_def int64_def)

section \<open>GenerateDocs\<close>

text \<open>
  C3, as amended. For every template name other than \<^verbatim>\<open>table\<close> and \<^verbatim>\<open>list\<close>,
  \<open>GenerateDocs\<close> first parses the document: when \<open>Parse\<close> fails it returns the error of
  \<open>Parse\<close>, and when \<open>Parse\<close> succeeds it returns the error that names the unknown
  template. Neither formatter is called.
\<close>

theorem GenerateDocs_unknown_template:
  assumes "templateName \<noteq> ''table''" and "templateName \<noteq> ''list''"
  shows "GenerateDocs Parse FormatAsTables FormatAsList yamlStr templateName =
     (case Parse yamlStr of
        Inl err \<Rightarrow> Inl err
      | Inr node \<Rightarrow> Inl (UnknownTemplateName templateName))"
  using assms unfolding GenerateDocs_def by (simp split: sum.split)

theorem GenerateDocs_unknown_template_witness:
  "''html'' \<noteq> ''table'' \<and> ''html'' \<noteq> ''list''
   \<and> GenerateDocs exampleParse exampleFormat exampleFormat ''a: true'' ''html''
       = Inl (UnknownTemplateName ''html'')"
proof -
  have a: "''html'' \<noteq> ''table''" and b: "''html'' \<noteq> ''list''"
    by simp_all
  show ?thesis
    using a b GenerateDocs_unknown_template [OF a b, of exampleParse exampleFormat exampleFormat "''a: true''"]
    by (simp add: exampleParse_def)
qed

text \<open>
  The claim as it is written has the unknown template reported for every document and
  before any parsing. On a document that \<open>Parse\<close> rejects, the result is the error of
  \<open>Parse\<close>, whatever the template name.
\<close>

theorem GenerateDocs_unknown_template_counterexample:
  "GenerateDocs exampleParse exampleFormat exampleFormat ''a: ['' ''html''
     = Inl (Errorf ''yaml: document not understood'')
   \<and> GenerateDocs exampleParse exampleFormat exampleFormat ''a: ['' ''html''
     \<noteq> Inl (UnknownTemplateName ''html'')"
  by (simp add: GenerateDocs_def exampleParse_def)

end
